theory Spec2Isabelle
  imports Main "HOL-Library.Word" "HOL-Library.Multiset"
begin

section \<open>ScaledObject: data model of \<open>apis/keda/v1alpha1/scaledobject_types.go\<close>\<close>

text \<open>
  Go's \<open>int32\<close> is a 32-bit two's complement integer: a \<open>32 word\<close>, compared with the
  signed orders \<open><s\<close> and \<open>\<le>s\<close>. A nullable pointer (\<open>*int32\<close>, \<open>*Fallback\<close>,
  \<open>*AdvancedConfig\<close>) is an \<open>option\<close>: \<open>nil\<close> is \<open>None\<close>. A Go \<open>string\<close> is a
  \<open>string\<close>, its zero value is \<open>''''\<close>.
\<close>

type_synonym int32 = "32 word"

text \<open>
  \<open>autoscalingv2.MetricTargetType\<close> (k8s.io/api/autoscaling/v2) is a string type with three
  named values.
\<close>

type_synonym MetricTargetType = string

definition UtilizationMetricType :: MetricTargetType where
  "UtilizationMetricType = ''Utilization''"

definition ValueMetricType :: MetricTargetType where
  "ValueMetricType = ''Value''"

definition AverageValueMetricType :: MetricTargetType where
  "AverageValueMetricType = ''AverageValue''"

definition PausedReplicasAnnotation :: string where
  "PausedReplicasAnnotation = ''autoscaling.keda.sh/paused-replicas''"

definition PausedAnnotation :: string where
  "PausedAnnotation = ''autoscaling.keda.sh/paused''"

definition defaultHPAMinReplicas :: int32 where
  "defaultHPAMinReplicas = 1"

definition defaultHPAMaxReplicas :: int32 where
  "defaultHPAMaxReplicas = 100"

text \<open>
  Modelled from the spec: \<open>cpuString\<close> and \<open>memoryString\<close> are constants of the package
  declared outside \<open>scaledobject_types.go\<close>; the specification names the two reserved
  type tags \<open>cpu\<close> and \<open>memory\<close>.
\<close>

definition cpuString :: string where
  "cpuString = ''cpu''"

definition memoryString :: string where
  "memoryString = ''memory''"

text \<open>
  Modelled from the spec: the struct \<open>ScaleTriggers\<close> is declared in another file of the
  package. The specification gives a trigger a type tag and a metric-target-type; these are
  the two fields \<open>trigger.Type\<close> and \<open>trigger.MetricType\<close> that \<open>CheckFallbackValid\<close> reads.
\<close>

record ScaleTriggers =
  Type :: string
  trigger_MetricType :: MetricTargetType

record Fallback =
  FailureThreshold :: int32
  Replicas :: int32
  Behavior :: string

record ScalingModifiers =
  Formula :: string
  Target :: string
  ActivationTarget :: string
  MetricType :: MetricTargetType

text \<open>
  The types below are declared outside this file (Kubernetes libraries, or other files of the
  package) and no function of this file looks inside them.
\<close>

typedecl HorizontalPodAutoscalerBehavior
typedecl GroupVersionKindResource
typedecl Time
typedecl Conditions

record HorizontalPodAutoscalerConfig =
  hpa_Behavior :: "HorizontalPodAutoscalerBehavior option"
  hpa_Name :: string

record AdvancedConfig =
  HorizontalPodAutoscalerConfig :: "HorizontalPodAutoscalerConfig option"
  RestoreToOriginalReplicaCount :: bool
  ScalingModifiers :: ScalingModifiers

record ScaleTarget =
  Name :: string
  APIVersion :: string
  Kind :: string
  EnvSourceContainerName :: string

record ScaledObjectSpec =
  ScaleTargetRef :: "ScaleTarget option"
  PollingInterval :: "int32 option"
  InitialCooldownPeriod :: "int32 option"
  CooldownPeriod :: "int32 option"
  IdleReplicaCount :: "int32 option"
  MinReplicaCount :: "int32 option"
  MaxReplicaCount :: "int32 option"
  Advanced :: "AdvancedConfig option"
  Triggers :: "ScaleTriggers list"
  Fallback :: "Fallback option"

datatype HealthStatusType = HealthStatusHappy | HealthStatusFailing | HealthStatusOther string

record HealthStatus =
  NumberOfFailures :: "int32 option"
  health_Status :: HealthStatusType

record ScaledObjectStatus =
  ScaleTargetKind :: string
  ScaleTargetGVKR :: "GroupVersionKindResource option"
  OriginalReplicaCount :: "int32 option"
  LastActiveTime :: "Time option"
  ExternalMetricNames :: "string list"
  ResourceMetricNames :: "string list"
  CompositeScalerName :: string
  Conditions :: "Conditions option"
  Health :: "string \<rightharpoonup> HealthStatus"
  PausedReplicaCount :: "int32 option"
  HpaName :: string
  TriggersTypes :: "string option"
  AuthenticationsTypes :: "string option"

text \<open>
  Of the embedded \<open>metav1.ObjectMeta\<close> the functions of this file read the namespace, the
  name and the annotations; \<open>GetAnnotations\<close> returns the annotation map. A lookup in a Go
  map that is \<open>nil\<close> finds nothing, as in an empty one, so the map is a partial function.
\<close>

record ObjectMeta =
  meta_Name :: string
  Namespace :: string
  Annotations :: "string \<rightharpoonup> string"

record ScaledObject =
  ObjectMeta :: ObjectMeta
  Spec :: ScaledObjectSpec
  Status :: ScaledObjectStatus

definition GetAnnotations :: "ScaledObject \<Rightarrow> (string \<rightharpoonup> string)" where
  "GetAnnotations so = Annotations (ObjectMeta so)"

section \<open>Default replica counts\<close>

text \<open>
  \<open>GetHPAMinReplicas\<close> returns a pointer that is never \<open>nil\<close>: either the field of the spec
  or the address of a fresh copy of the default. The model returns the value pointed to.
\<close>

definition GetHPAMinReplicas :: "ScaledObject \<Rightarrow> int32" where
  "GetHPAMinReplicas so =
     (case MinReplicaCount (Spec so) of
        Some m \<Rightarrow> if 0 <s m then m else defaultHPAMinReplicas
      | None \<Rightarrow> defaultHPAMinReplicas)"

definition GetHPAMaxReplicas :: "ScaledObject \<Rightarrow> int32" where
  "GetHPAMaxReplicas so =
     (case MaxReplicaCount (Spec so) of
        Some m \<Rightarrow> m
      | None \<Rightarrow> defaultHPAMaxReplicas)"

section \<open>Pause annotations\<close>

text \<open>
  Go's two-valued map index \<open>v, found := m[k]\<close>: the value stored under the key and
  \<open>true\<close>, or the zero value of the value type and \<open>false\<close>.
\<close>

definition map_index :: "(string \<rightharpoonup> string) \<Rightarrow> string \<Rightarrow> string \<times> bool" where
  "map_index m k = (case m k of Some v \<Rightarrow> (v, True) | None \<Rightarrow> ('''', False))"

text \<open>
  \<open>strconv.ParseBool\<close> of Go's standard library: it accepts \<open>1\<close>, \<open>t\<close>, \<open>T\<close>, \<open>TRUE\<close>,
  \<open>true\<close>, \<open>True\<close>, \<open>0\<close>, \<open>f\<close>, \<open>F\<close>, \<open>FALSE\<close>, \<open>false\<close>, \<open>False\<close>, and returns a syntax
  error for any other string.
\<close>

datatype NumError = ErrSyntax string string

definition ParseBool :: "string \<Rightarrow> NumError + bool" where
  "ParseBool str =
     (if str \<in> set [''1'', ''t'', ''T'', ''TRUE'', ''true'', ''True''] then Inr True
      else if str \<in> set [''0'', ''f'', ''F'', ''FALSE'', ''false'', ''False''] then Inr False
      else Inl (ErrSyntax ''ParseBool'' str))"

definition HasPausedReplicaAnnotation :: "ScaledObject \<Rightarrow> bool" where
  "HasPausedReplicaAnnotation so =
     (let (_, pausedReplicasAnnotationFound) = map_index (GetAnnotations so) PausedReplicasAnnotation
      in pausedReplicasAnnotationFound)"

definition HasPausedAnnotation :: "ScaledObject \<Rightarrow> bool" where
  "HasPausedAnnotation so =
     (let (_, pausedAnnotationFound) = map_index (GetAnnotations so) PausedAnnotation;
          (_, pausedReplicasAnnotationFound) = map_index (GetAnnotations so) PausedReplicasAnnotation
      in pausedAnnotationFound \<or> pausedReplicasAnnotationFound)"

definition NeedToBePausedByAnnotation :: "ScaledObject \<Rightarrow> bool" where
  "NeedToBePausedByAnnotation so =
     (let (_, pausedReplicasAnnotationFound) = map_index (GetAnnotations so) PausedReplicasAnnotation
      in if pausedReplicasAnnotationFound then PausedReplicaCount (Status so) \<noteq> None
         else
           let (pausedAnnotationValue, pausedAnnotationFound) = map_index (GetAnnotations so) PausedAnnotation
           in if \<not> pausedAnnotationFound then False
              else
                case ParseBool pausedAnnotationValue of
                  Inl err \<Rightarrow> True
                | Inr shouldPause \<Rightarrow> shouldPause)"

section \<open>Scaling modifiers\<close>

text \<open>\<open>ScalingModifiers{}\<close>: the zero value of the struct, every string empty.\<close>

definition ScalingModifiers_zero :: ScalingModifiers where
  "ScalingModifiers_zero =
     \<lparr>Formula = '''', Target = '''', ActivationTarget = '''', MetricType = ''''\<rparr>"

text \<open>
  \<open>reflect.DeepEqual\<close> on two values of a struct type whose fields are strings holds when
  the corresponding fields are equal: the equality of the record.
\<close>

definition IsUsingModifiers :: "ScaledObject \<Rightarrow> bool" where
  "IsUsingModifiers so =
     (case Advanced (Spec so) of
        None \<Rightarrow> False
      | Some adv \<Rightarrow> \<not> (ScalingModifiers adv = ScalingModifiers_zero))"

section \<open>Validation\<close>

text \<open>
  The two checks return Go's \<open>error\<close>: \<open>nil\<close>, or a message built by \<open>fmt.Errorf\<close>. The
  model has one constructor for each message, carrying the numbers the message prints:
  \<^item> \<open>OutOfBoundsReplicaCount minReplicas maxReplicas\<close>:
    ``MinReplicaCount=%d must be less than MaxReplicaCount=%d'';
  \<^item> \<open>IdleAboveOrEqualMin idle minReplicas\<close>:
    ``IdleReplicaCount=%d must be less than MinReplicaCount=%d'';
  \<^item> \<open>NegativeFallbackField failureThreshold replicas\<close>:
    ``FailureThreshold=%d & Replicas=%d must both be greater than or equal to 0'';
  \<^item> \<open>UnsupportedFallbackMetricType\<close>: ``when using ScalingModifiers,
    ScaledObject.Spec.Advanced.ScalingModifiers.MetricType must be AverageValue to have
    fallback enabled'';
  \<^item> \<open>NoEligibleFallbackTrigger\<close>: ``at least one trigger (that is not cpu or memory) has
    to have the `AverageValue` type for the fallback to be enabled'';
  \<^item> \<open>NilPointerDereference\<close>: the run-time panic of reading a field through a \<open>nil\<close>
    pointer.
  \<open>Inr ()\<close> is the \<open>nil\<close> error.
\<close>

datatype ValidationError =
    OutOfBoundsReplicaCount int32 int32
  | IdleAboveOrEqualMin int32 int32
  | NegativeFallbackField int32 int32
  | UnsupportedFallbackMetricType
  | NoEligibleFallbackTrigger
  | NilPointerDereference

definition CheckReplicaCountBoundsAreValid :: "ScaledObject \<Rightarrow> ValidationError + unit" where
  "CheckReplicaCountBoundsAreValid scaledObject =
     (let minReplicas =
            (if MinReplicaCount (Spec scaledObject) \<noteq> None
             then GetHPAMinReplicas scaledObject else 0);
          maxReplicas = GetHPAMaxReplicas scaledObject
      in if maxReplicas <s minReplicas
         then Inl (OutOfBoundsReplicaCount minReplicas maxReplicas)
         else
           case IdleReplicaCount (Spec scaledObject) of
             None \<Rightarrow> Inr ()
           | Some idle \<Rightarrow>
               if minReplicas \<le>s idle then Inl (IdleAboveOrEqualMin idle minReplicas)
               else Inr ())"

text \<open>
  The loop over \<open>scaledObject.Spec.Triggers\<close>, with the variable \<open>fallbackValid\<close> as its
  state: \<open>continue\<close> goes on with the remaining triggers, \<open>break\<close> leaves the loop.
\<close>

fun triggersLoop :: "bool \<Rightarrow> ScaleTriggers list \<Rightarrow> bool" where
  "triggersLoop fallbackValid [] = fallbackValid"
| "triggersLoop fallbackValid (trigger # rest) =
     (if Type trigger = cpuString \<or> Type trigger = memoryString
      then triggersLoop fallbackValid rest
      else
        let effectiveMetricType =
              (if trigger_MetricType trigger = '''' then AverageValueMetricType
               else trigger_MetricType trigger)
        in if effectiveMetricType = AverageValueMetricType then True
           else triggersLoop fallbackValid rest)"

definition CheckFallbackValid :: "ScaledObject \<Rightarrow> ValidationError + unit" where
  "CheckFallbackValid scaledObject =
     (case Fallback (Spec scaledObject) of
        None \<Rightarrow> Inr ()
      | Some fb \<Rightarrow>
          if FailureThreshold fb <s 0 \<or> Replicas fb <s 0
          then Inl (NegativeFallbackField (FailureThreshold fb) (Replicas fb))
          else if IsUsingModifiers scaledObject then
            (case Advanced (Spec scaledObject) of
               None \<Rightarrow> Inl NilPointerDereference
             | Some adv \<Rightarrow>
                 if MetricType (ScalingModifiers adv) = ValueMetricType
                 then Inl UnsupportedFallbackMetricType
                 else Inr ())
          else
            let fallbackValid = triggersLoop False (Triggers (Spec scaledObject))
            in if \<not> fallbackValid then Inl NoEligibleFallbackTrigger
               else Inr ())"

section \<open>Outcomes of the checks, by kind\<close>

text \<open>
  Which message a check returned, whatever the numbers printed in it.
\<close>

fun isOutOfBoundsReplicaCount :: "ValidationError + unit \<Rightarrow> bool" where
  "isOutOfBoundsReplicaCount (Inl (OutOfBoundsReplicaCount minReplicas maxReplicas)) = True"
| "isOutOfBoundsReplicaCount r = False"

fun isIdleAboveOrEqualMin :: "ValidationError + unit \<Rightarrow> bool" where
  "isIdleAboveOrEqualMin (Inl (IdleAboveOrEqualMin idle minReplicas)) = True"
| "isIdleAboveOrEqualMin r = False"

fun isNegativeFallbackField :: "ValidationError + unit \<Rightarrow> bool" where
  "isNegativeFallbackField (Inl (NegativeFallbackField failureThreshold replicas)) = True"
| "isNegativeFallbackField r = False"

section \<open>The specification's wording, for comparison with the code\<close>

text \<open>
  The specification describes the minimum used by the bounds check as ``the declared
  min-replica-count if present, else 0'', and the idle check as ``idle-replica-count is set
  and idle is at least that minimum''. These two definitions follow that wording; they are not
  taken from the code.
\<close>

definition spec_declaredMinOrZero :: "ScaledObject \<Rightarrow> int32" where
  "spec_declaredMinOrZero so = (case MinReplicaCount (Spec so) of Some m \<Rightarrow> m | None \<Rightarrow> 0)"

definition spec_idleAboveOrEqualDeclaredMin :: "ScaledObject \<Rightarrow> bool" where
  "spec_idleAboveOrEqualDeclaredMin so =
     (case IdleReplicaCount (Spec so) of
        None \<Rightarrow> False
      | Some idle \<Rightarrow> spec_declaredMinOrZero so \<le>s idle)"

text \<open>
  The specification's fallback-eligible trigger: its type tag is neither \<open>cpu\<close> nor
  \<open>memory\<close>, and its effective metric-target-type (the declared one, or \<open>AverageValue\<close>
  when unset) is \<open>AverageValue\<close>.
\<close>

definition spec_fallbackEligible :: "ScaleTriggers \<Rightarrow> bool" where
  "spec_fallbackEligible t =
     (Type t \<noteq> ''cpu'' \<and> Type t \<noteq> ''memory''
      \<and> (if trigger_MetricType t = '''' then ''AverageValue'' else trigger_MetricType t)
          = ''AverageValue'')"

section \<open>Concrete objects\<close>

text \<open>The zero values of the structs, and the objects used as examples below.\<close>

definition ScaledObjectSpec_zero :: ScaledObjectSpec where
  "ScaledObjectSpec_zero =
     \<lparr>ScaleTargetRef = None, PollingInterval = None, InitialCooldownPeriod = None,
      CooldownPeriod = None, IdleReplicaCount = None, MinReplicaCount = None,
      MaxReplicaCount = None, Advanced = None, Triggers = [], Fallback = None\<rparr>"

definition ScaledObjectStatus_zero :: ScaledObjectStatus where
  "ScaledObjectStatus_zero =
     \<lparr>ScaleTargetKind = '''', ScaleTargetGVKR = None, OriginalReplicaCount = None,
      LastActiveTime = None, ExternalMetricNames = [], ResourceMetricNames = [],
      CompositeScalerName = '''', Conditions = None, Health = Map.empty,
      PausedReplicaCount = None, HpaName = '''', TriggersTypes = None,
      AuthenticationsTypes = None\<rparr>"

definition ObjectMeta_zero :: ObjectMeta where
  "ObjectMeta_zero = \<lparr>meta_Name = '''', Namespace = '''', Annotations = Map.empty\<rparr>"

definition ScaledObject_zero :: ScaledObject where
  "ScaledObject_zero =
     \<lparr>ObjectMeta = ObjectMeta_zero, Spec = ScaledObjectSpec_zero,
      Status = ScaledObjectStatus_zero\<rparr>"

definition object_of_spec :: "ScaledObjectSpec \<Rightarrow> ScaledObject" where
  "object_of_spec sp = ScaledObject_zero\<lparr>Spec := sp\<rparr>"

definition object_of_annotations :: "(string \<rightharpoonup> string) \<Rightarrow> ScaledObject" where
  "object_of_annotations ann = ScaledObject_zero\<lparr>ObjectMeta := ObjectMeta_zero\<lparr>Annotations := ann\<rparr>\<rparr>"

definition so_min0_max0 :: ScaledObject where
  "so_min0_max0 =
     object_of_spec (ScaledObjectSpec_zero\<lparr>MinReplicaCount := Some 0, MaxReplicaCount := Some 0\<rparr>)"

definition so_min5_max3 :: ScaledObject where
  "so_min5_max3 =
     object_of_spec (ScaledObjectSpec_zero\<lparr>MinReplicaCount := Some 5, MaxReplicaCount := Some 3\<rparr>)"

definition so_min0_idle0 :: ScaledObject where
  "so_min0_idle0 =
     object_of_spec (ScaledObjectSpec_zero\<lparr>IdleReplicaCount := Some 0, MinReplicaCount := Some 0\<rparr>)"

definition so_min10_idle10 :: ScaledObject where
  "so_min10_idle10 =
     object_of_spec (ScaledObjectSpec_zero\<lparr>IdleReplicaCount := Some 10, MinReplicaCount := Some 10\<rparr>)"

definition so_min10_idle9 :: ScaledObject where
  "so_min10_idle9 =
     object_of_spec (ScaledObjectSpec_zero\<lparr>IdleReplicaCount := Some 9, MinReplicaCount := Some 10\<rparr>)"

definition so_min5 :: ScaledObject where
  "so_min5 = object_of_spec (ScaledObjectSpec_zero\<lparr>MinReplicaCount := Some 5\<rparr>)"

definition so_max0 :: ScaledObject where
  "so_max0 = object_of_spec (ScaledObjectSpec_zero\<lparr>MaxReplicaCount := Some 0\<rparr>)"

definition so_idle0 :: ScaledObject where
  "so_idle0 = object_of_spec (ScaledObjectSpec_zero\<lparr>IdleReplicaCount := Some 0\<rparr>)"

definition so_min_negative :: ScaledObject where
  "so_min_negative = object_of_spec (ScaledObjectSpec_zero\<lparr>MinReplicaCount := Some (- 3)\<rparr>)"

definition so_min7_max20 :: ScaledObject where
  "so_min7_max20 =
     object_of_spec (ScaledObjectSpec_zero\<lparr>MinReplicaCount := Some 7, MaxReplicaCount := Some 20\<rparr>)"

definition so_both_annotations :: ScaledObject where
  "so_both_annotations =
     object_of_annotations [PausedAnnotation \<mapsto> ''true'', PausedReplicasAnnotation \<mapsto> ''3'']"

definition so_paused_not_a_bool :: ScaledObject where
  "so_paused_not_a_bool = object_of_annotations [PausedAnnotation \<mapsto> ''not-a-bool'']"

definition so_paused_false :: ScaledObject where
  "so_paused_false = object_of_annotations [PausedAnnotation \<mapsto> ''false'']"

definition fallback_3_2 :: Fallback where
  "fallback_3_2 = \<lparr>FailureThreshold = 3, Replicas = 2, Behavior = ''static''\<rparr>"

definition trigger_cpu :: ScaleTriggers where
  "trigger_cpu = \<lparr>Type = ''cpu'', trigger_MetricType = ''Utilization''\<rparr>"

definition trigger_memory :: ScaleTriggers where
  "trigger_memory = \<lparr>Type = ''memory'', trigger_MetricType = ''AverageValue''\<rparr>"

definition trigger_kafka :: ScaleTriggers where
  "trigger_kafka = \<lparr>Type = ''kafka'', trigger_MetricType = ''''\<rparr>"

definition so_fallback_cpu_memory :: ScaledObject where
  "so_fallback_cpu_memory =
     object_of_spec (ScaledObjectSpec_zero
       \<lparr>Triggers := [trigger_cpu, trigger_memory], Fallback := Some fallback_3_2\<rparr>)"

definition so_fallback_kafka :: ScaledObject where
  "so_fallback_kafka =
     object_of_spec (ScaledObjectSpec_zero
       \<lparr>Triggers := [trigger_cpu, trigger_memory, trigger_kafka], Fallback := Some fallback_3_2\<rparr>)"

definition advanced_with :: "MetricTargetType \<Rightarrow> AdvancedConfig" where
  "advanced_with mt =
     \<lparr>HorizontalPodAutoscalerConfig = None, RestoreToOriginalReplicaCount = False,
      ScalingModifiers =
        \<lparr>Formula = ''a + b'', Target = ''5'', ActivationTarget = '''', MetricType = mt\<rparr>\<rparr>"

definition advanced_zero :: AdvancedConfig where
  "advanced_zero =
     \<lparr>HorizontalPodAutoscalerConfig = None, RestoreToOriginalReplicaCount = False,
      ScalingModifiers = ScalingModifiers_zero\<rparr>"

definition so_modifiers_value :: ScaledObject where
  "so_modifiers_value =
     object_of_spec (ScaledObjectSpec_zero
       \<lparr>Advanced := Some (advanced_with ''Value''), Triggers := [trigger_cpu],
        Fallback := Some fallback_3_2\<rparr>)"

definition so_modifiers_average :: ScaledObject where
  "so_modifiers_average =
     object_of_spec (ScaledObjectSpec_zero
       \<lparr>Advanced := Some (advanced_with ''AverageValue''), Triggers := [trigger_cpu],
        Fallback := Some fallback_3_2\<rparr>)"

definition so_advanced_zero :: ScaledObject where
  "so_advanced_zero = object_of_spec (ScaledObjectSpec_zero\<lparr>Advanced := Some advanced_zero\<rparr>)"

definition so_fallback_negative :: ScaledObject where
  "so_fallback_negative =
     object_of_spec (ScaledObjectSpec_zero
       \<lparr>Triggers := [trigger_kafka],
        Fallback := Some \<lparr>FailureThreshold = - 1, Replicas = 2, Behavior = ''static''\<rparr>\<rparr>)"

section \<open>Helper lemmas\<close>

lemmas example_defs =
  object_of_spec_def object_of_annotations_def ScaledObject_zero_def ScaledObjectSpec_zero_def
  ScaledObjectStatus_zero_def ObjectMeta_zero_def

lemmas trigger_defs = trigger_cpu_def trigger_memory_def trigger_kafka_def

text \<open>Once \<open>fallbackValid\<close> is true the loop cannot reset it.\<close>

lemma triggersLoop_True: "triggersLoop True ts = True"
  by (induction ts) (simp_all add: Let_def)

text \<open>
  The loop started with \<open>fallbackValid = false\<close> ends with \<open>true\<close> exactly when some
  trigger of the sequence is fallback-eligible in the specification's sense.
\<close>

lemma triggersLoop_False_iff:
  "triggersLoop False ts = (\<exists>t \<in> set ts. spec_fallbackEligible t)"
  by (induction ts)
     (auto simp add: Let_def spec_fallbackEligible_def cpuString_def memoryString_def
        AverageValueMetricType_def)

text \<open>
  \<open>CheckFallbackValid\<close> reads \<open>Spec.Advanced.ScalingModifiers\<close> only after
  \<open>IsUsingModifiers\<close> has found \<open>Spec.Advanced\<close> to be non-nil: it never panics.
\<close>

lemma CheckFallbackValid_no_panic:
  "CheckFallbackValid so \<noteq> Inl NilPointerDereference"
  by (auto simp add: CheckFallbackValid_def IsUsingModifiers_def Let_def split: option.splits)

section \<open>Default replica counts: C7, C9\<close>

text \<open>
  Claim C7. For every spec, \<open>GetHPAMinReplicas\<close> returns the declared min-replica-count when
  it is present and strictly greater than zero, and 1 otherwise; \<open>GetHPAMaxReplicas\<close> returns
  the declared max-replica-count when present and 100 otherwise; with neither declared the
  results are 1 and 100.
\<close>

theorem GetHPA_defaults:
  "GetHPAMinReplicas so =
     (case MinReplicaCount (Spec so) of
        None \<Rightarrow> 1
      | Some m \<Rightarrow> if 0 < sint m then m else 1)
   \<and> GetHPAMaxReplicas so =
     (case MaxReplicaCount (Spec so) of None \<Rightarrow> 100 | Some m \<Rightarrow> m)
   \<and> (MinReplicaCount (Spec so) = None \<and> MaxReplicaCount (Spec so) = None \<longrightarrow>
        GetHPAMinReplicas so = 1 \<and> GetHPAMaxReplicas so = 100)"
  by (simp add: GetHPAMinReplicas_def GetHPAMaxReplicas_def defaultHPAMinReplicas_def
      defaultHPAMaxReplicas_def word_sless_alt split: option.split)

text \<open>At the zero object (nothing declared) and at min 7, max 20.\<close>

theorem GetHPA_defaults_witness:
  "MinReplicaCount (Spec ScaledObject_zero) = None
   \<and> MaxReplicaCount (Spec ScaledObject_zero) = None
   \<and> GetHPAMinReplicas ScaledObject_zero = 1
   \<and> GetHPAMaxReplicas ScaledObject_zero = 100
   \<and> GetHPAMinReplicas so_min7_max20 = 7
   \<and> GetHPAMaxReplicas so_min7_max20 = 20"
  using GetHPA_defaults [of ScaledObject_zero] GetHPA_defaults [of so_min7_max20]
  by (simp add: so_min7_max20_def example_defs)

text \<open>
  Claim C9. For every spec, the value returned by \<open>GetHPAMinReplicas\<close> is strictly positive;
  when the declared min-replica-count is present but zero or negative, the value returned is
  the default 1, not the declared value.
\<close>

theorem GetHPAMinReplicas_positive:
  "0 < sint (GetHPAMinReplicas so)
   \<and> (\<forall>m. MinReplicaCount (Spec so) = Some m \<and> sint m \<le> 0 \<longrightarrow> GetHPAMinReplicas so = 1)"
  by (simp add: GetHPAMinReplicas_def defaultHPAMinReplicas_def word_sless_alt
      split: option.split)

text \<open>At a declared minimum of -3.\<close>

theorem GetHPAMinReplicas_positive_witness:
  "MinReplicaCount (Spec so_min_negative) = Some (- 3)
   \<and> sint (- 3 :: int32) \<le> 0
   \<and> GetHPAMinReplicas so_min_negative = 1
   \<and> 0 < sint (GetHPAMinReplicas so_min_negative)"
  using GetHPAMinReplicas_positive [of so_min_negative]
  by (simp add: so_min_negative_def example_defs)

section \<open>Replica bounds: C1, C2\<close>

text \<open>
  The doc comment of \<open>CheckReplicaCountBoundsAreValid\<close> says that it checks the replica
  counts defined in the ScaledObject: that Min is not greater than Max, and that Idle is not
  greater than or equal to Min. The function starts from \<open>minReplicas = 0\<close> and replaces it
  when a min-replica-count is declared, but it reads the declared value through
  \<open>GetHPAMinReplicas\<close>, which returns 1 for a declared value that is zero or negative. The
  two lemmas below locate the effect: wherever the declared min-replica-count is absent or
  strictly positive, the check compares the declared minimum (or 0), as the specification
  says.
\<close>

lemma CheckReplicaCountBoundsAreValid_OutOfBounds_positive_min:
  "MinReplicaCount (Spec so) = None \<or> (\<exists>m. MinReplicaCount (Spec so) = Some m \<and> 0 < sint m) \<Longrightarrow>
   isOutOfBoundsReplicaCount (CheckReplicaCountBoundsAreValid so)
     = (GetHPAMaxReplicas so <s spec_declaredMinOrZero so)"
  by (auto simp add: CheckReplicaCountBoundsAreValid_def GetHPAMinReplicas_def
      spec_declaredMinOrZero_def word_sless_alt Let_def split: option.splits)

lemma CheckReplicaCountBoundsAreValid_Idle_positive_min:
  "MinReplicaCount (Spec so) = None \<or> (\<exists>m. MinReplicaCount (Spec so) = Some m \<and> 0 < sint m) \<Longrightarrow>
   \<not> isOutOfBoundsReplicaCount (CheckReplicaCountBoundsAreValid so) \<Longrightarrow>
   (isIdleAboveOrEqualMin (CheckReplicaCountBoundsAreValid so)
      = spec_idleAboveOrEqualDeclaredMin so)
   \<and> (\<not> isIdleAboveOrEqualMin (CheckReplicaCountBoundsAreValid so) \<longrightarrow>
        CheckReplicaCountBoundsAreValid so = Inr ())"
  by (auto simp add: CheckReplicaCountBoundsAreValid_def GetHPAMinReplicas_def
      spec_declaredMinOrZero_def spec_idleAboveOrEqualDeclaredMin_def word_sless_alt
      word_sle_eq Let_def split: option.splits if_splits)

text \<open>
  The examples of the specification: min 5 with max 3 is out of bounds, min 5 alone is valid;
  min 10 with idle 10 fails and with idle 9 is valid.
\<close>

lemma CheckReplicaCountBoundsAreValid_examples:
  "CheckReplicaCountBoundsAreValid so_min5_max3 = Inl (OutOfBoundsReplicaCount 5 3)"
  "CheckReplicaCountBoundsAreValid so_min5 = Inr ()"
  "CheckReplicaCountBoundsAreValid so_min10_idle10 = Inl (IdleAboveOrEqualMin 10 10)"
  "CheckReplicaCountBoundsAreValid so_min10_idle9 = Inr ()"
  by (simp_all add: CheckReplicaCountBoundsAreValid_def GetHPAMinReplicas_def
      GetHPAMaxReplicas_def defaultHPAMinReplicas_def defaultHPAMaxReplicas_def
      so_min5_max3_def so_min5_def so_min10_idle10_def so_min10_idle9_def example_defs
      word_sless_alt word_sle_eq)

text \<open>
  Claim C1. For every spec, \<open>CheckReplicaCountBoundsAreValid\<close> fails with
  \<open>OutOfBoundsReplicaCount\<close> if and only if the declared min-replica-count when present,
  or 0 when absent, is strictly greater than the effective max-replica-count. The code
  departs from this where the declared min-replica-count is zero or negative. With
  min-replica-count 0 and max-replica-count 0 both declared, the declared minimum 0 is not
  greater than the maximum 0, and the check fails all the same, with the message
  ``MinReplicaCount=1 must be less than MaxReplicaCount=0''. On the neighbouring path, with
  the same maximum 0 and no min-replica-count declared, the minimum compared is 0 and the
  check succeeds.
\<close>

theorem CheckReplicaCountBoundsAreValid_min0_max0:
  "MinReplicaCount (Spec so_min0_max0) = Some 0
   \<and> MaxReplicaCount (Spec so_min0_max0) = Some 0
   \<and> spec_declaredMinOrZero so_min0_max0 = 0
   \<and> GetHPAMaxReplicas so_min0_max0 = 0
   \<and> CheckReplicaCountBoundsAreValid so_min0_max0 = Inl (OutOfBoundsReplicaCount 1 0)
   \<and> MinReplicaCount (Spec so_max0) = None
   \<and> MaxReplicaCount (Spec so_max0) = Some 0
   \<and> CheckReplicaCountBoundsAreValid so_max0 = Inr ()"
  by (simp add: CheckReplicaCountBoundsAreValid_def GetHPAMinReplicas_def GetHPAMaxReplicas_def
      defaultHPAMinReplicas_def spec_declaredMinOrZero_def so_min0_max0_def so_max0_def
      example_defs word_sless_alt)

text \<open>
  Claim C2. For every spec on which the min/max bound check does not fail,
  \<open>CheckReplicaCountBoundsAreValid\<close> fails with \<open>IdleAboveOrEqualMin\<close> if and only if
  idle-replica-count is set and is at least the declared min-replica-count (0 when no min is
  declared); otherwise it succeeds. The code departs from this where the declared
  min-replica-count is zero or negative. With min-replica-count 0 and idle-replica-count 0
  both declared and no maximum, the bound check does not fail and idle 0 is at least the
  declared minimum 0, and the check succeeds all the same. On the neighbouring path, with
  the same idle-replica-count 0 and no min-replica-count declared, the check fails with
  ``IdleReplicaCount=0 must be less than MinReplicaCount=0''.
\<close>

theorem CheckReplicaCountBoundsAreValid_min0_idle0:
  "MinReplicaCount (Spec so_min0_idle0) = Some 0
   \<and> IdleReplicaCount (Spec so_min0_idle0) = Some 0
   \<and> spec_declaredMinOrZero so_min0_idle0 = 0
   \<and> spec_idleAboveOrEqualDeclaredMin so_min0_idle0
   \<and> CheckReplicaCountBoundsAreValid so_min0_idle0 = Inr ()
   \<and> MinReplicaCount (Spec so_idle0) = None
   \<and> IdleReplicaCount (Spec so_idle0) = Some 0
   \<and> CheckReplicaCountBoundsAreValid so_idle0 = Inl (IdleAboveOrEqualMin 0 0)"
  by (simp add: CheckReplicaCountBoundsAreValid_def GetHPAMinReplicas_def GetHPAMaxReplicas_def
      defaultHPAMinReplicas_def defaultHPAMaxReplicas_def spec_declaredMinOrZero_def
      spec_idleAboveOrEqualDeclaredMin_def so_min0_idle0_def so_idle0_def example_defs
      word_sless_alt word_sle_eq)

section \<open>Pause annotations: C3\<close>

text \<open>
  Claim C3. For every annotation map and status, \<open>NeedToBePausedByAnnotation\<close> resolves in
  this order: if the paused-replicas key is present, the result is whether
  \<open>Status.PausedReplicaCount\<close> is non-nil, whatever the values of the two annotations; else
  if the paused key is absent, the result is false; else the result is the boolean parsed
  from the paused annotation's value, or true when parsing fails.
\<close>

theorem NeedToBePausedByAnnotation_precedence:
  "(PausedReplicasAnnotation \<in> dom (GetAnnotations so) \<longrightarrow>
      NeedToBePausedByAnnotation so = (PausedReplicaCount (Status so) \<noteq> None))
   \<and> (PausedReplicasAnnotation \<notin> dom (GetAnnotations so)
        \<and> PausedAnnotation \<notin> dom (GetAnnotations so) \<longrightarrow>
      NeedToBePausedByAnnotation so = False)
   \<and> (PausedReplicasAnnotation \<notin> dom (GetAnnotations so)
        \<and> GetAnnotations so PausedAnnotation = Some v \<longrightarrow>
      NeedToBePausedByAnnotation so =
        (case ParseBool v of Inr b \<Rightarrow> b | Inl e \<Rightarrow> True))"
  by (auto simp add: NeedToBePausedByAnnotation_def map_index_def dom_def
      split: option.splits sum.splits)

text \<open>
  At an object with both annotations and no paused replica count, at the zero object, and at
  objects whose only annotation is the paused one, with the values \<open>not-a-bool\<close> and
  \<open>false\<close>.
\<close>

theorem NeedToBePausedByAnnotation_precedence_witness:
  "PausedReplicasAnnotation \<in> dom (GetAnnotations so_both_annotations)
   \<and> PausedReplicaCount (Status so_both_annotations) = None
   \<and> NeedToBePausedByAnnotation so_both_annotations = False
   \<and> PausedReplicasAnnotation \<notin> dom (GetAnnotations ScaledObject_zero)
   \<and> PausedAnnotation \<notin> dom (GetAnnotations ScaledObject_zero)
   \<and> NeedToBePausedByAnnotation ScaledObject_zero = False
   \<and> PausedReplicasAnnotation \<notin> dom (GetAnnotations so_paused_not_a_bool)
   \<and> GetAnnotations so_paused_not_a_bool PausedAnnotation = Some ''not-a-bool''
   \<and> NeedToBePausedByAnnotation so_paused_not_a_bool = True
   \<and> PausedReplicasAnnotation \<notin> dom (GetAnnotations so_paused_false)
   \<and> GetAnnotations so_paused_false PausedAnnotation = Some ''false''
   \<and> NeedToBePausedByAnnotation so_paused_false = False"
proof -
  have a: "GetAnnotations so_both_annotations PausedReplicasAnnotation = Some ''3''"
    "PausedReplicaCount (Status so_both_annotations) = None"
    by (simp_all add: GetAnnotations_def so_both_annotations_def example_defs)
  have b: "GetAnnotations ScaledObject_zero PausedReplicasAnnotation = None"
    "GetAnnotations ScaledObject_zero PausedAnnotation = None"
    by (simp_all add: GetAnnotations_def example_defs)
  have c: "GetAnnotations so_paused_not_a_bool PausedReplicasAnnotation = None"
    "GetAnnotations so_paused_not_a_bool PausedAnnotation = Some ''not-a-bool''"
    by (simp_all add: GetAnnotations_def so_paused_not_a_bool_def example_defs
        PausedAnnotation_def PausedReplicasAnnotation_def)
  have d: "GetAnnotations so_paused_false PausedReplicasAnnotation = None"
    "GetAnnotations so_paused_false PausedAnnotation = Some ''false''"
    by (simp_all add: GetAnnotations_def so_paused_false_def example_defs
        PausedAnnotation_def PausedReplicasAnnotation_def)
  show ?thesis
    using NeedToBePausedByAnnotation_precedence [of so_both_annotations]
      NeedToBePausedByAnnotation_precedence [of ScaledObject_zero]
      NeedToBePausedByAnnotation_precedence [of so_paused_not_a_bool "''not-a-bool''"]
      NeedToBePausedByAnnotation_precedence [of so_paused_false "''false''"]
    by (simp add: a b c d domIff ParseBool_def)
qed

section \<open>Scaling modifiers: C6\<close>

text \<open>
  Claim C6. For every spec, \<open>IsUsingModifiers\<close> returns true if and only if the Advanced
  block is present and its ScalingModifiers block differs, field by field, from the empty
  value: it is not the case that formula, target and activationTarget are all empty and
  metricType is unset.
\<close>

theorem IsUsingModifiers_iff:
  "IsUsingModifiers so =
     (\<exists>adv. Advanced (Spec so) = Some adv
        \<and> \<not> (Formula (ScalingModifiers adv) = '''' \<and> Target (ScalingModifiers adv) = ''''
             \<and> ActivationTarget (ScalingModifiers adv) = ''''
             \<and> MetricType (ScalingModifiers adv) = ''''))"
  by (cases "Advanced (Spec so)")
     (auto simp add: IsUsingModifiers_def ScalingModifiers_zero_def ScalingModifiers.equality)

text \<open>
  Without an Advanced block, with an Advanced block whose modifiers are empty, and with a
  formula and a target set.
\<close>

theorem IsUsingModifiers_iff_witness:
  "\<not> IsUsingModifiers ScaledObject_zero
   \<and> \<not> IsUsingModifiers so_advanced_zero
   \<and> IsUsingModifiers so_modifiers_average"
  using IsUsingModifiers_iff [of ScaledObject_zero] IsUsingModifiers_iff [of so_advanced_zero]
    IsUsingModifiers_iff [of so_modifiers_average]
  by (simp add: so_advanced_zero_def so_modifiers_average_def advanced_zero_def
      advanced_with_def ScalingModifiers_zero_def example_defs)

section \<open>Fallback: C8, C5, C4, C10\<close>

text \<open>
  Claim C8. When the fallback block is absent, \<open>CheckFallbackValid\<close> succeeds. When it is
  present, the check fails with \<open>NegativeFallbackField\<close> if and only if failureThreshold is
  less than 0 or replicas is less than 0; and this check comes before the others: with a
  negative field the result is \<open>NegativeFallbackField\<close> whatever the Advanced block and the
  triggers of the spec are.
\<close>

theorem CheckFallbackValid_NegativeFallbackField:
  "(Fallback (Spec so) = None \<longrightarrow> CheckFallbackValid so = Inr ())
   \<and> (Fallback (Spec so) = Some fb \<longrightarrow>
        isNegativeFallbackField (CheckFallbackValid so)
          = (sint (FailureThreshold fb) < 0 \<or> sint (Replicas fb) < 0))
   \<and> (Fallback (Spec so) = Some fb
        \<and> (sint (FailureThreshold fb) < 0 \<or> sint (Replicas fb) < 0) \<longrightarrow>
        CheckFallbackValid (so\<lparr>Spec := (Spec so)\<lparr>Advanced := adv_any, Triggers := ts_any\<rparr>\<rparr>)
          = Inl (NegativeFallbackField (FailureThreshold fb) (Replicas fb)))"
  by (auto simp add: CheckFallbackValid_def word_sless_alt Let_def split: option.splits)

text \<open>
  Without a fallback block; with failureThreshold -1, also after putting in modifiers of metric
  type \<open>Value\<close> and removing every trigger; and with failureThreshold 3, replicas 2.
\<close>

theorem CheckFallbackValid_NegativeFallbackField_witness:
  "Fallback (Spec ScaledObject_zero) = None
   \<and> CheckFallbackValid ScaledObject_zero = Inr ()
   \<and> Fallback (Spec so_fallback_negative)
        = Some \<lparr>FailureThreshold = - 1, Replicas = 2, Behavior = ''static''\<rparr>
   \<and> sint (- 1 :: int32) < 0
   \<and> isNegativeFallbackField (CheckFallbackValid so_fallback_negative)
   \<and> CheckFallbackValid
        (so_fallback_negative\<lparr>Spec := (Spec so_fallback_negative)
           \<lparr>Advanced := Some (advanced_with ''Value''), Triggers := []\<rparr>\<rparr>)
        = Inl (NegativeFallbackField (- 1) 2)
   \<and> Fallback (Spec so_fallback_kafka) = Some fallback_3_2
   \<and> \<not> isNegativeFallbackField (CheckFallbackValid so_fallback_kafka)"
  using CheckFallbackValid_NegativeFallbackField [of ScaledObject_zero]
    CheckFallbackValid_NegativeFallbackField
      [where so = so_fallback_negative
         and fb = "\<lparr>FailureThreshold = - 1, Replicas = 2, Behavior = ''static''\<rparr>"
         and adv_any = "Some (advanced_with ''Value'')" and ts_any = "[]"]
    CheckFallbackValid_NegativeFallbackField [of so_fallback_kafka fallback_3_2]
  by (simp add: so_fallback_negative_def so_fallback_kafka_def fallback_3_2_def example_defs)

text \<open>
  Claim C5. For every spec with a fallback block present, nonnegative fallback fields, and
  modifiers in use, \<open>CheckFallbackValid\<close> fails with \<open>UnsupportedFallbackMetricType\<close> if and
  only if the metric type of the scaling modifiers equals \<open>Value\<close>; with an unset or
  \<open>AverageValue\<close> metric type, and with any metric type other than \<open>Value\<close>, it succeeds.
\<close>

theorem CheckFallbackValid_modifiers:
  "Fallback (Spec so) = Some fb \<Longrightarrow>
   0 \<le> sint (FailureThreshold fb) \<Longrightarrow> 0 \<le> sint (Replicas fb) \<Longrightarrow>
   IsUsingModifiers so \<Longrightarrow> Advanced (Spec so) = Some adv \<Longrightarrow>
   (CheckFallbackValid so = Inl UnsupportedFallbackMetricType)
      = (MetricType (ScalingModifiers adv) = ''Value'')
   \<and> (MetricType (ScalingModifiers adv) = ''''
        \<or> MetricType (ScalingModifiers adv) = ''AverageValue''
        \<longrightarrow> CheckFallbackValid so = Inr ())
   \<and> (MetricType (ScalingModifiers adv) \<noteq> ''Value'' \<longrightarrow> CheckFallbackValid so = Inr ())"
  by (auto simp add: CheckFallbackValid_def word_sless_alt ValueMetricType_def)

text \<open>With modifiers of metric type \<open>Value\<close>, and of metric type \<open>AverageValue\<close>.\<close>

theorem CheckFallbackValid_modifiers_witness:
  "Fallback (Spec so_modifiers_value) = Some fallback_3_2
   \<and> 0 \<le> sint (FailureThreshold fallback_3_2) \<and> 0 \<le> sint (Replicas fallback_3_2)
   \<and> IsUsingModifiers so_modifiers_value
   \<and> Advanced (Spec so_modifiers_value) = Some (advanced_with ''Value'')
   \<and> CheckFallbackValid so_modifiers_value = Inl UnsupportedFallbackMetricType
   \<and> Fallback (Spec so_modifiers_average) = Some fallback_3_2
   \<and> IsUsingModifiers so_modifiers_average
   \<and> Advanced (Spec so_modifiers_average) = Some (advanced_with ''AverageValue'')
   \<and> CheckFallbackValid so_modifiers_average = Inr ()"
proof -
  have fb: "Fallback (Spec so_modifiers_value) = Some fallback_3_2"
    "Fallback (Spec so_modifiers_average) = Some fallback_3_2"
    by (simp_all add: so_modifiers_value_def so_modifiers_average_def example_defs)
  have nonneg: "0 \<le> sint (FailureThreshold fallback_3_2)" "0 \<le> sint (Replicas fallback_3_2)"
    by (simp_all add: fallback_3_2_def)
  have adv: "Advanced (Spec so_modifiers_value) = Some (advanced_with ''Value'')"
    "Advanced (Spec so_modifiers_average) = Some (advanced_with ''AverageValue'')"
    by (simp_all add: so_modifiers_value_def so_modifiers_average_def example_defs)
  have using_mod: "IsUsingModifiers so_modifiers_value" "IsUsingModifiers so_modifiers_average"
    by (simp_all add: IsUsingModifiers_def adv advanced_with_def ScalingModifiers_zero_def)
  show ?thesis
    using CheckFallbackValid_modifiers [OF fb(1) nonneg using_mod(1) adv(1)]
      CheckFallbackValid_modifiers [OF fb(2) nonneg using_mod(2) adv(2)]
      fb nonneg using_mod adv
    by (simp add: advanced_with_def)
qed

text \<open>
  Claim C4. For every spec with a fallback block present, nonnegative fallback fields, and
  modifiers not in use, \<open>CheckFallbackValid\<close> fails with \<open>NoEligibleFallbackTrigger\<close> if and
  only if no trigger of the sequence has a type tag other than \<open>cpu\<close> and \<open>memory\<close> together
  with an effective metric-target-type of \<open>AverageValue\<close> (an unset one counting as
  \<open>AverageValue\<close>); it succeeds when there is such a trigger; and the outcome is the same for
  every reordering of the triggers.
\<close>

theorem CheckFallbackValid_NoEligibleFallbackTrigger:
  "Fallback (Spec so) = Some fb \<Longrightarrow>
   0 \<le> sint (FailureThreshold fb) \<Longrightarrow> 0 \<le> sint (Replicas fb) \<Longrightarrow>
   \<not> IsUsingModifiers so \<Longrightarrow>
   (CheckFallbackValid so = Inl NoEligibleFallbackTrigger)
      = (\<not> (\<exists>t \<in> set (Triggers (Spec so)). spec_fallbackEligible t))
   \<and> ((\<exists>t \<in> set (Triggers (Spec so)). spec_fallbackEligible t) \<longrightarrow>
        CheckFallbackValid so = Inr ())
   \<and> (mset ts = mset (Triggers (Spec so)) \<longrightarrow>
        CheckFallbackValid (so\<lparr>Spec := (Spec so)\<lparr>Triggers := ts\<rparr>\<rparr>) = CheckFallbackValid so)"
proof -
  assume fb: "Fallback (Spec so) = Some fb"
    and nonneg: "0 \<le> sint (FailureThreshold fb)" "0 \<le> sint (Replicas fb)"
    and nomod: "\<not> IsUsingModifiers so"
  have not_neg: "\<not> (FailureThreshold fb <s 0 \<or> Replicas fb <s 0)"
    using nonneg by (simp add: word_sless_alt)
  have res: "CheckFallbackValid so =
      (if triggersLoop False (Triggers (Spec so)) then Inr () else Inl NoEligibleFallbackTrigger)"
    using fb not_neg nomod by (simp add: CheckFallbackValid_def)
  have res_ts: "CheckFallbackValid (so\<lparr>Spec := (Spec so)\<lparr>Triggers := ts\<rparr>\<rparr>) =
      (if triggersLoop False ts then Inr () else Inl NoEligibleFallbackTrigger)"
    using fb not_neg nomod
    by (simp add: CheckFallbackValid_def IsUsingModifiers_def)
  have perm: "mset ts = mset (Triggers (Spec so)) \<Longrightarrow>
      triggersLoop False ts = triggersLoop False (Triggers (Spec so))"
    using mset_eq_setD [of ts "Triggers (Spec so)"] by (simp add: triggersLoop_False_iff)
  show ?thesis
    using perm by (simp add: res res_ts triggersLoop_False_iff)
qed

text \<open>
  With the triggers cpu, memory, kafka (kafka with no metric type), also reordered as kafka,
  cpu, memory; and with the triggers cpu, memory alone.
\<close>

theorem CheckFallbackValid_NoEligibleFallbackTrigger_witness:
  "Fallback (Spec so_fallback_kafka) = Some fallback_3_2
   \<and> 0 \<le> sint (FailureThreshold fallback_3_2) \<and> 0 \<le> sint (Replicas fallback_3_2)
   \<and> \<not> IsUsingModifiers so_fallback_kafka
   \<and> (\<exists>t \<in> set (Triggers (Spec so_fallback_kafka)). spec_fallbackEligible t)
   \<and> mset [trigger_kafka, trigger_cpu, trigger_memory] = mset (Triggers (Spec so_fallback_kafka))
   \<and> CheckFallbackValid so_fallback_kafka = Inr ()
   \<and> CheckFallbackValid
        (so_fallback_kafka\<lparr>Spec := (Spec so_fallback_kafka)
           \<lparr>Triggers := [trigger_kafka, trigger_cpu, trigger_memory]\<rparr>\<rparr>) = Inr ()
   \<and> Fallback (Spec so_fallback_cpu_memory) = Some fallback_3_2
   \<and> \<not> IsUsingModifiers so_fallback_cpu_memory
   \<and> \<not> (\<exists>t \<in> set (Triggers (Spec so_fallback_cpu_memory)). spec_fallbackEligible t)
   \<and> CheckFallbackValid so_fallback_cpu_memory = Inl NoEligibleFallbackTrigger"
proof -
  have fb: "Fallback (Spec so_fallback_kafka) = Some fallback_3_2"
    "Fallback (Spec so_fallback_cpu_memory) = Some fallback_3_2"
    by (simp_all add: so_fallback_kafka_def so_fallback_cpu_memory_def example_defs)
  have nonneg: "0 \<le> sint (FailureThreshold fallback_3_2)" "0 \<le> sint (Replicas fallback_3_2)"
    by (simp_all add: fallback_3_2_def)
  have nomod: "\<not> IsUsingModifiers so_fallback_kafka" "\<not> IsUsingModifiers so_fallback_cpu_memory"
    by (simp_all add: IsUsingModifiers_def so_fallback_kafka_def so_fallback_cpu_memory_def
        example_defs)
  have trig: "Triggers (Spec so_fallback_kafka) = [trigger_cpu, trigger_memory, trigger_kafka]"
    "Triggers (Spec so_fallback_cpu_memory) = [trigger_cpu, trigger_memory]"
    by (simp_all add: so_fallback_kafka_def so_fallback_cpu_memory_def example_defs)
  have el: "spec_fallbackEligible trigger_kafka" "\<not> spec_fallbackEligible trigger_cpu"
    "\<not> spec_fallbackEligible trigger_memory"
    by (simp_all add: spec_fallbackEligible_def trigger_defs)
  have perm: "mset [trigger_kafka, trigger_cpu, trigger_memory]
      = mset (Triggers (Spec so_fallback_kafka))"
    by (simp add: trig)
  show ?thesis
    using CheckFallbackValid_NoEligibleFallbackTrigger
        [OF fb(1) nonneg nomod(1), of "[trigger_kafka, trigger_cpu, trigger_memory]"]
      CheckFallbackValid_NoEligibleFallbackTrigger
        [OF fb(2) nonneg nomod(2), of "[trigger_memory, trigger_cpu]"]
      fb nonneg nomod perm
    by (simp add: trig el)
qed

text \<open>
  Claim C10. For any two specs that are the same except for their Triggers, with a fallback
  block present, nonnegative fallback fields, and modifiers in use, \<open>CheckFallbackValid\<close>
  returns the same outcome on both: with modifiers in use the triggers are not looked at.
\<close>

theorem CheckFallbackValid_ignores_Triggers:
  "Fallback (Spec so1) = Some fb \<Longrightarrow>
   0 \<le> sint (FailureThreshold fb) \<Longrightarrow> 0 \<le> sint (Replicas fb) \<Longrightarrow>
   IsUsingModifiers so1 \<Longrightarrow>
   Spec so2 = (Spec so1)\<lparr>Triggers := ts\<rparr> \<Longrightarrow>
   CheckFallbackValid so2 = CheckFallbackValid so1"
  by (simp add: CheckFallbackValid_def IsUsingModifiers_def word_sless_alt)

text \<open>
  With modifiers of metric type \<open>Value\<close> and the single trigger cpu, against the same spec with
  the triggers kafka, memory.
\<close>

theorem CheckFallbackValid_ignores_Triggers_witness:
  "Fallback (Spec so_modifiers_value) = Some fallback_3_2
   \<and> 0 \<le> sint (FailureThreshold fallback_3_2) \<and> 0 \<le> sint (Replicas fallback_3_2)
   \<and> IsUsingModifiers so_modifiers_value
   \<and> CheckFallbackValid
        (so_modifiers_value\<lparr>Spec := (Spec so_modifiers_value)
           \<lparr>Triggers := [trigger_kafka, trigger_memory]\<rparr>\<rparr>)
       = CheckFallbackValid so_modifiers_value"
proof -
  have fb: "Fallback (Spec so_modifiers_value) = Some fallback_3_2"
    by (simp add: so_modifiers_value_def example_defs)
  have nonneg: "0 \<le> sint (FailureThreshold fallback_3_2)" "0 \<le> sint (Replicas fallback_3_2)"
    by (simp_all add: fallback_3_2_def)
  have using_mod: "IsUsingModifiers so_modifiers_value"
    by (simp add: IsUsingModifiers_def so_modifiers_value_def advanced_with_def
        ScalingModifiers_zero_def example_defs)
  have sp: "Spec (so_modifiers_value\<lparr>Spec := (Spec so_modifiers_value)
           \<lparr>Triggers := [trigger_kafka, trigger_memory]\<rparr>\<rparr>)
      = (Spec so_modifiers_value)\<lparr>Triggers := [trigger_kafka, trigger_memory]\<rparr>"
    by simp
  from CheckFallbackValid_ignores_Triggers [OF fb nonneg using_mod sp] fb nonneg using_mod
  show ?thesis by simp
qed

end
